theory Spec2Isabelle
  imports Main
begin

section \<open>Focus and focus-within tracking (create-event-handle/Focus.js)\<close>

text \<open>
  A shallow embedding of \<^verbatim>\<open>Focus.js\<close>. The listeners that the two hooks
  \<^verbatim>\<open>useFocus\<close> and \<^verbatim>\<open>useFocusWithin\<close> install are state transformers
  on the hook's private state object (\<^verbatim>\<open>stateRef.current\<close>); every invocation of a user
  callback is appended to a log, in the order in which the JavaScript makes the calls.
  User callbacks are taken to return normally and not to dispatch further events while a
  listener runs.
\<close>

subsection \<open>Data model\<close>

text \<open>
  A DOM node, with the fields the module reads. Two JavaScript references are the same
  object (\<^verbatim>\<open>===\<close>) when their \<open>node_id\<close> agrees.
\<close>

record node =
  node_id :: nat
  nodeType :: nat
  nodeName :: string
  tagName :: string
  isContentEditable :: bool

text \<open>The native browser event: the fields read by the module.\<close>

record nativeEvent =
  ne_type :: string
  ne_target :: node
  relatedTarget :: "node option"
  metaKey :: bool
  altKey :: bool
  ctrlKey :: bool
  key :: string

text \<open>The framework's synthetic event: \<^verbatim>\<open>event.type\<close>, \<^verbatim>\<open>event.target\<close>,
  \<^verbatim>\<open>event.nativeEvent\<close>.\<close>

record syntheticEvent =
  se_type :: string
  se_target :: node
  se_nativeEvent :: nativeEvent

text \<open>
  The module-level constants computed once at load time from the platform:
  \<^verbatim>\<open>isMac\<close> (line 35) and \<^verbatim>\<open>hasPointerEvents\<close> (line 66).
\<close>

record platform =
  isMac :: bool
  hasPointerEvents :: bool

subsection \<open>Key and input classification (lines 98-110)\<close>

definition isValidKey :: "platform \<Rightarrow> nativeEvent \<Rightarrow> bool" where
  "isValidKey p nativeEvent =
     (\<not> (metaKey nativeEvent \<or> (\<not> isMac p \<and> altKey nativeEvent) \<or> ctrlKey nativeEvent))"

definition isTextInput :: "nativeEvent \<Rightarrow> bool" where
  "isTextInput nativeEvent =
     (if key nativeEvent = ''Tab'' \<or> key nativeEvent = ''Esacpe'' then False
      else (tagName (ne_target nativeEvent) = ''INPUT''
            \<or> tagName (ne_target nativeEvent) = ''TEXTAREA''
            \<or> isContentEditable (ne_target nativeEvent)))"

text \<open>An \<^verbatim>\<open>input\<close> element, and a key press on it.\<close>

definition inputElement :: node where
  "inputElement =
     \<lparr>node_id = 1, nodeType = 1, nodeName = ''INPUT'', tagName = ''INPUT'',
      isContentEditable = False\<rparr>"

definition keydownOn :: "node \<Rightarrow> string \<Rightarrow> nativeEvent" where
  "keydownOn t k =
     \<lparr>ne_type = ''keydown'', ne_target = t, relatedTarget = None,
      metaKey = False, altKey = False, ctrlKey = False, key = k\<rparr>"

subsection \<open>Global focus-visible heuristic (lines 66-129)\<close>

text \<open>The two module-level variables of lines 85-86.\<close>

record globalState =
  isGlobalFocusVisible :: bool
  hasTrackedGlobalFocusVisible :: bool

definition initialGlobalState :: globalState where
  "initialGlobalState =
     \<lparr>isGlobalFocusVisible = True, hasTrackedGlobalFocusVisible = False\<rparr>"

definition globalFocusVisibleEvents :: "platform \<Rightarrow> string list" where
  "globalFocusVisibleEvents p =
     (if hasPointerEvents p
      then [''keydown'', ''pointermove'', ''pointerdown'', ''pointerup'']
      else [''keydown'', ''mousedown'', ''mousemove'', ''mouseup'',
            ''touchmove'', ''touchstart'', ''touchend''])"

definition handleGlobalFocusVisibleEvent ::
  "platform \<Rightarrow> nativeEvent \<Rightarrow> globalState \<Rightarrow> globalState" where
  "handleGlobalFocusVisibleEvent p nativeEvent g =
     (if ne_type nativeEvent = ''keydown'' then
        (if isValidKey p nativeEvent then g\<lparr>isGlobalFocusVisible := True\<rparr> else g)
      else
        (let nodeName' = nodeName (ne_target nativeEvent) in
         if nodeName' = ''HTML'' then g
         else g\<lparr>isGlobalFocusVisible := False\<rparr>))"

text \<open>
  \<^verbatim>\<open>useFocusLifecycles\<close>: the mount effect registers the window listeners once
  (\<^verbatim>\<open>trackGlobalFocusVisible\<close>); the flag records that they are registered.
\<close>

definition useFocusLifecycles :: "globalState \<Rightarrow> globalState" where
  "useFocusLifecycles g =
     (if \<not> hasTrackedGlobalFocusVisible g
      then g\<lparr>hasTrackedGlobalFocusVisible := True\<rparr> else g)"

text \<open>
  A native event reaching the window: the listeners of \<^verbatim>\<open>trackGlobalFocusVisible\<close>
  are registered for the types of \<open>globalFocusVisibleEvents\<close> only.
\<close>

definition windowEvent :: "platform \<Rightarrow> nativeEvent \<Rightarrow> globalState \<Rightarrow> globalState" where
  "windowEvent p nativeEvent g =
     (if hasTrackedGlobalFocusVisible g \<and> ne_type nativeEvent \<in> set (globalFocusVisibleEvents p)
      then handleGlobalFocusVisibleEvent p nativeEvent g else g)"

subsection \<open>Hook state, options and callbacks\<close>

text \<open>The object held by \<^verbatim>\<open>stateRef\<close> (lines 200 and 297).\<close>

record trackerState =
  isFocused :: bool
  isFocusVisible :: bool

definition initialTrackerState :: trackerState where
  "initialTrackerState = \<lparr>isFocused = False, isFocusVisible = False\<rparr>"

text \<open>One invocation of a user callback, with its argument.\<close>

datatype call =
    OnFocus syntheticEvent
  | OnBlur syntheticEvent
  | OnFocusChange bool
  | OnFocusVisibleChange bool
  | OnAfterBlurWithin syntheticEvent
  | OnBeforeBlurWithin syntheticEvent
  | OnBlurWithin syntheticEvent
  | OnFocusWithin syntheticEvent
  | OnFocusWithinChange bool
  | OnFocusWithinVisibleChange bool

text \<open>
  \<^verbatim>\<open>UseFocusOptions\<close> and \<^verbatim>\<open>UseFocusWithinOptions\<close>. \<open>disabled\<close> is
  \<^verbatim>\<open>undefined\<close> (\<open>None\<close>), \<^verbatim>\<open>true\<close> or \<^verbatim>\<open>false\<close>; a callback field says
  whether the callback was supplied (is truthy).
\<close>

record useFocusOptions =
  disabled :: "bool option"
  onBlur :: bool
  onFocus :: bool
  onFocusChange :: bool
  onFocusVisibleChange :: bool

record useFocusWithinOptions =
  disabledWithin :: "bool option"
  onAfterBlurWithin :: bool
  onBeforeBlurWithin :: bool
  onBlurWithin :: bool
  onFocusWithin :: bool
  onFocusWithinChange :: bool
  onFocusWithinVisibleChange :: bool

text \<open>JavaScript truthiness of the optional flag, as in \<^verbatim>\<open>if (disabled)\<close>.\<close>

definition truthy :: "bool option \<Rightarrow> bool" where
  "truthy b = (case b of None \<Rightarrow> False | Some v \<Rightarrow> v)"

text \<open>Targets on which a handle holds a listener.\<close>

datatype listenerTarget = Document | Element nat

text \<open>
  Modelled from the spec: the handle object returned by \<^verbatim>\<open>useEvent\<close>
  (\<^verbatim>\<open>./useEvent\<close> is not among the sources). The spec's section 6: the handle exposes
  \<^verbatim>\<open>setListener(target, callbackOrNull)\<close>; passing null deregisters; section 8: a later
  registration on the same target replaces the earlier one. A handle is thus a partial map
  from targets to the one listener registered there, empty when created.
\<close>

definition setListener ::
  "(listenerTarget \<rightharpoonup> 'l) \<Rightarrow> listenerTarget \<Rightarrow> 'l option \<Rightarrow> (listenerTarget \<rightharpoonup> 'l)" where
  "setListener handle t callback = handle(t := callback)"

text \<open>
  A hook instance: its state object and the log of callback invocations. The
  \<^verbatim>\<open>useFocusWithin\<close> instance also owns \<^verbatim>\<open>afterBlurHandle\<close>; the listener
  stored there is the closure of lines 398-404, represented by the options it captured.
\<close>

record hook =
  stateRef :: trackerState
  callLog :: "call list"

record withinHook = hook +
  afterBlurHandle :: "listenerTarget \<rightharpoonup> useFocusWithinOptions"

definition initialHook :: hook where
  "initialHook = \<lparr>stateRef = initialTrackerState, callLog = []\<rparr>"

definition initialWithinHook :: withinHook where
  "initialWithinHook =
     \<lparr>stateRef = initialTrackerState, callLog = [], afterBlurHandle = Map.empty\<rparr>"

definition invoke :: "call \<Rightarrow> 'a hook_scheme \<Rightarrow> 'a hook_scheme" where
  "invoke c h = h\<lparr>callLog := callLog h @ [c]\<rparr>"

definition set_isFocused :: "bool \<Rightarrow> 'a hook_scheme \<Rightarrow> 'a hook_scheme" where
  "set_isFocused v h = h\<lparr>stateRef := (stateRef h)\<lparr>isFocused := v\<rparr>\<rparr>"

definition set_isFocusVisible :: "bool \<Rightarrow> 'a hook_scheme \<Rightarrow> 'a hook_scheme" where
  "set_isFocusVisible v h = h\<lparr>stateRef := (stateRef h)\<lparr>isFocusVisible := v\<rparr>\<rparr>"

subsection \<open>Target-level visibility classifier (lines 131-178)\<close>

definition handleFocusVisibleTargetEvents ::
  "platform \<Rightarrow> syntheticEvent \<Rightarrow> (bool \<Rightarrow> 'h \<Rightarrow> 'h) \<Rightarrow> 'h \<Rightarrow> 'h" where
  "handleFocusVisibleTargetEvents p event callback h =
     (if se_type event = ''keydown'' then
        (let nativeEvent = se_nativeEvent event in
         if isValidKey p nativeEvent \<and> \<not> isTextInput nativeEvent
         then callback True h else h)
      else callback False h)"

definition useFocusVisibleInputHandles :: "platform \<Rightarrow> string list" where
  "useFocusVisibleInputHandles p =
     [''mousedown'', if hasPointerEvents p then ''pointerdown'' else ''touchstart'',
      ''keydown'']"

subsection \<open>useFocus (lines 189-280)\<close>

text \<open>The callback handed to \<^verbatim>\<open>setFocusVisibleListeners\<close> (lines 216-223).\<close>

definition useFocus_focusVisibleCallback :: "useFocusOptions \<Rightarrow> bool \<Rightarrow> hook \<Rightarrow> hook" where
  "useFocus_focusVisibleCallback opts isFocusVisible' h =
     (if isFocused (stateRef h) \<and> isFocusVisible (stateRef h) \<noteq> isFocusVisible' then
        (let h = set_isFocusVisible isFocusVisible' h in
         if onFocusVisibleChange opts then invoke (OnFocusVisibleChange isFocusVisible') h
         else h)
      else h)"

text \<open>The listener that \<^verbatim>\<open>setFocusVisibleListeners\<close> sets on each of the three
  input handles (lines 165-169).\<close>

definition useFocus_focusVisibleListener ::
  "platform \<Rightarrow> useFocusOptions \<Rightarrow> syntheticEvent \<Rightarrow> hook \<Rightarrow> hook" where
  "useFocus_focusVisibleListener p opts event h =
     handleFocusVisibleTargetEvents p event (useFocus_focusVisibleCallback opts) h"

text \<open>The \<^verbatim>\<open>focusin\<close> listener (lines 227-244). \<open>g\<close> is the module's global state
  at the time the listener runs.\<close>

definition useFocus_focusListener ::
  "useFocusOptions \<Rightarrow> node \<Rightarrow> globalState \<Rightarrow> syntheticEvent \<Rightarrow> hook \<Rightarrow> hook" where
  "useFocus_focusListener opts focusTarget g event h =
     (if disabled opts = Some True then h
      else if \<not> isFocused (stateRef h) \<and> node_id focusTarget = node_id (se_target event) then
        (let h = set_isFocused True h;
             h = set_isFocusVisible (isGlobalFocusVisible g) h;
             h = (if onFocus opts then invoke (OnFocus event) h else h);
             h = (if onFocusChange opts then invoke (OnFocusChange True) h else h);
             h = (if isFocusVisible (stateRef h) \<and> onFocusVisibleChange opts
                  then invoke (OnFocusVisibleChange True) h else h)
         in h)
      else h)"

text \<open>The \<^verbatim>\<open>focusout\<close> listener (lines 247-264).\<close>

definition useFocus_blurListener ::
  "useFocusOptions \<Rightarrow> globalState \<Rightarrow> syntheticEvent \<Rightarrow> hook \<Rightarrow> hook" where
  "useFocus_blurListener opts g event h =
     (if disabled opts = Some True then h
      else if isFocused (stateRef h) then
        (let h = set_isFocused False h;
             h = set_isFocusVisible (isGlobalFocusVisible g) h;
             h = (if onBlur opts then invoke (OnBlur event) h else h);
             h = (if onFocusChange opts then invoke (OnFocusChange False) h else h);
             h = (if isFocusVisible (stateRef h) \<and> onFocusVisibleChange opts
                  then invoke (OnFocusVisibleChange False) h else h)
         in h)
      else h)"

text \<open>
  Delivery of an event to the hook: the layout effect (lines 207-265) sets the listeners
  when the ref holds an element node; an event then runs the listener of the handle
  created for its type.
\<close>

definition useFocus_dispatch ::
  "platform \<Rightarrow> useFocusOptions \<Rightarrow> node option \<Rightarrow> globalState \<Rightarrow> syntheticEvent \<Rightarrow> hook \<Rightarrow> hook"
  where
  "useFocus_dispatch p opts focusTargetRef g event h =
     (case focusTargetRef of
        None \<Rightarrow> h
      | Some focusTarget \<Rightarrow>
          if nodeType focusTarget = 1 then
            (if se_type event = ''focusin'' then useFocus_focusListener opts focusTarget g event h
             else if se_type event = ''focusout'' then useFocus_blurListener opts g event h
             else if se_type event \<in> set (useFocusVisibleInputHandles p)
               then useFocus_focusVisibleListener p opts event h
             else h)
          else h)"

subsection \<open>useFocusWithin (lines 145-158 and 282-430)\<close>

text \<open>
  The target of \<^verbatim>\<open>useFocusWithin\<close>: a scope instance, which has a
  \<^verbatim>\<open>containsNode\<close> method, or a DOM node, which has \<^verbatim>\<open>contains\<close>. The field
  \<open>contains\<close> of a target with \<open>containsNode\<close> is never read.
\<close>

record focusWithinTarget =
  containsNode :: "(node \<Rightarrow> bool) option"
  contains :: "node \<Rightarrow> bool"

definition isRelatedTargetWithin :: "focusWithinTarget \<Rightarrow> node option \<Rightarrow> bool" where
  "isRelatedTargetWithin focusWithinTarget relatedTarget' =
     (case relatedTarget' of
        None \<Rightarrow> False
      | Some r \<Rightarrow>
          (case containsNode focusWithinTarget of
             Some f \<Rightarrow> f r
           | None \<Rightarrow> contains focusWithinTarget r))"

text \<open>The callback handed to \<^verbatim>\<open>setFocusVisibleListeners\<close> (lines 323-330).\<close>

definition useFocusWithin_focusVisibleCallback ::
  "useFocusWithinOptions \<Rightarrow> bool \<Rightarrow> withinHook \<Rightarrow> withinHook" where
  "useFocusWithin_focusVisibleCallback opts isFocusVisible' h =
     (if isFocused (stateRef h) \<and> isFocusVisible (stateRef h) \<noteq> isFocusVisible' then
        (let h = set_isFocusVisible isFocusVisible' h in
         if onFocusWithinVisibleChange opts
         then invoke (OnFocusWithinVisibleChange isFocusVisible') h else h)
      else h)"

definition useFocusWithin_focusVisibleListener ::
  "platform \<Rightarrow> useFocusWithinOptions \<Rightarrow> syntheticEvent \<Rightarrow> withinHook \<Rightarrow> withinHook" where
  "useFocusWithin_focusVisibleListener p opts event h =
     handleFocusVisibleTargetEvents p event (useFocusWithin_focusVisibleCallback opts) h"

text \<open>The \<^verbatim>\<open>focusin\<close> listener (lines 335-358).\<close>

definition useFocusWithin_focusListener ::
  "useFocusWithinOptions \<Rightarrow> globalState \<Rightarrow> syntheticEvent \<Rightarrow> withinHook \<Rightarrow> withinHook" where
  "useFocusWithin_focusListener opts g event h =
     (if truthy (disabledWithin opts) then h
      else
        (let h = (if \<not> isFocused (stateRef h) then
                    (let h = set_isFocused True h;
                         h = set_isFocusVisible (isGlobalFocusVisible g) h;
                         h = (if onFocusWithinChange opts
                              then invoke (OnFocusWithinChange True) h else h);
                         h = (if isFocusVisible (stateRef h) \<and> onFocusWithinVisibleChange opts
                              then invoke (OnFocusWithinVisibleChange True) h else h)
                     in h)
                  else h);
             h = (if \<not> isFocusVisible (stateRef h) \<and> isGlobalFocusVisible g then
                    (let h = set_isFocusVisible (isGlobalFocusVisible g) h in
                     if onFocusWithinVisibleChange opts
                     then invoke (OnFocusWithinVisibleChange True) h else h)
                  else h);
             h = (if onFocusWithin opts then invoke (OnFocusWithin event) h else h)
         in h))"

text \<open>The \<^verbatim>\<open>focusout\<close> listener (lines 362-383).\<close>

definition useFocusWithin_blurListener ::
  "useFocusWithinOptions \<Rightarrow> focusWithinTarget \<Rightarrow> syntheticEvent \<Rightarrow> withinHook \<Rightarrow> withinHook"
  where
  "useFocusWithin_blurListener opts focusWithinTarget event h =
     (if truthy (disabledWithin opts) then h
      else
        (let relatedTarget' = relatedTarget (se_nativeEvent event) in
         if isFocused (stateRef h) \<and> \<not> isRelatedTargetWithin focusWithinTarget relatedTarget' then
           (let h = set_isFocused False h;
                h = (if onFocusWithinChange opts
                     then invoke (OnFocusWithinChange False) h else h);
                h = (if isFocusVisible (stateRef h) \<and> onFocusWithinVisibleChange opts
                     then invoke (OnFocusWithinVisibleChange False) h else h);
                h = (if onBlurWithin opts then invoke (OnBlurWithin event) h else h)
            in h)
         else h))"

text \<open>The one-shot \<^verbatim>\<open>afterblur\<close> listener on the document (lines 398-404), for the
  options captured when it was set.\<close>

definition useFocusWithin_afterBlurListener ::
  "useFocusWithinOptions \<Rightarrow> syntheticEvent \<Rightarrow> withinHook \<Rightarrow> withinHook" where
  "useFocusWithin_afterBlurListener opts afterBlurEvent h =
     (let h = (if onAfterBlurWithin opts then invoke (OnAfterBlurWithin afterBlurEvent) h
               else h)
      in h\<lparr>afterBlurHandle := setListener (afterBlurHandle h) Document None\<rparr>)"

text \<open>The \<^verbatim>\<open>beforeblur\<close> listener (lines 388-407).\<close>

definition useFocusWithin_beforeBlurListener ::
  "useFocusWithinOptions \<Rightarrow> syntheticEvent \<Rightarrow> withinHook \<Rightarrow> withinHook" where
  "useFocusWithin_beforeBlurListener opts event h =
     (if truthy (disabledWithin opts) then h
      else if onBeforeBlurWithin opts then
        (let h = invoke (OnBeforeBlurWithin event) h
         in h\<lparr>afterBlurHandle := setListener (afterBlurHandle h) Document (Some opts)\<rparr>)
      else h)"

text \<open>
  Delivery of an event to the hook. An \<^verbatim>\<open>afterblur\<close> event runs the listener that
  \<^verbatim>\<open>afterBlurHandle\<close> holds for the document, if any; the other listeners are set by
  the ref callback (lines 307-409) when the target is not null.
\<close>

definition useFocusWithin_dispatch ::
  "platform \<Rightarrow> useFocusWithinOptions \<Rightarrow> focusWithinTarget option \<Rightarrow> globalState \<Rightarrow>
     syntheticEvent \<Rightarrow> withinHook \<Rightarrow> withinHook" where
  "useFocusWithin_dispatch p opts focusWithinTargetRef g event h =
     (if se_type event = ''afterblur'' then
        (case afterBlurHandle h Document of
           None \<Rightarrow> h
         | Some captured \<Rightarrow> useFocusWithin_afterBlurListener captured event h)
      else
        (case focusWithinTargetRef of
           None \<Rightarrow> h
         | Some focusWithinTarget \<Rightarrow>
             if se_type event = ''focusin'' then useFocusWithin_focusListener opts g event h
             else if se_type event = ''focusout''
               then useFocusWithin_blurListener opts focusWithinTarget event h
             else if se_type event = ''beforeblur''
               then useFocusWithin_beforeBlurListener opts event h
             else if se_type event \<in> set (useFocusVisibleInputHandles p)
               then useFocusWithin_focusVisibleListener p opts event h
             else h))"

text \<open>A sequence of deliveries, each with the global state at its time.\<close>

fun useFocusWithin_run ::
  "platform \<Rightarrow> useFocusWithinOptions \<Rightarrow> focusWithinTarget option \<Rightarrow>
     (globalState \<times> syntheticEvent) list \<Rightarrow> withinHook \<Rightarrow> withinHook" where
  "useFocusWithin_run p opts r [] h = h"
| "useFocusWithin_run p opts r (ge # ges) h =
     useFocusWithin_run p opts r ges (useFocusWithin_dispatch p opts r (fst ge) (snd ge) h)"

subsection \<open>The before-blur / after-blur pairing, in the spec's words\<close>

text \<open>
  The spec's section 4.4 read as a reference automaton: a before-blur invokes
  onBeforeBlurWithin and arms the one-shot listener; the next after-blur invokes
  onAfterBlurWithin and disarms it; arming twice leaves one listener. As everywhere in
  the spec, a callback that was not supplied is skipped. \<open>armed\<close> says whether the
  one-shot listener is registered.
\<close>

fun blurPairing_spec :: "useFocusWithinOptions \<Rightarrow> bool \<Rightarrow> syntheticEvent list \<Rightarrow> call list" where
  "blurPairing_spec opts armed [] = []"
| "blurPairing_spec opts armed (e # es) =
     (if se_type e = ''beforeblur'' then
        (if onBeforeBlurWithin opts then [OnBeforeBlurWithin e] else [])
          @ blurPairing_spec opts True es
      else if se_type e = ''afterblur'' then
        (if armed \<and> onAfterBlurWithin opts then [OnAfterBlurWithin e] else [])
          @ blurPairing_spec opts False es
      else blurPairing_spec opts armed es)"

subsection \<open>Concrete elements, events and options\<close>

definition buttonElement :: node where
  "buttonElement =
     \<lparr>node_id = 2, nodeType = 1, nodeName = ''BUTTON'', tagName = ''BUTTON'',
      isContentEditable = False\<rparr>"

definition childElement :: node where
  "childElement =
     \<lparr>node_id = 3, nodeType = 1, nodeName = ''SPAN'', tagName = ''SPAN'',
      isContentEditable = False\<rparr>"

definition outsideElement :: node where
  "outsideElement =
     \<lparr>node_id = 4, nodeType = 1, nodeName = ''DIV'', tagName = ''DIV'',
      isContentEditable = False\<rparr>"

definition htmlElement :: node where
  "htmlElement =
     \<lparr>node_id = 0, nodeType = 1, nodeName = ''HTML'', tagName = ''HTML'',
      isContentEditable = False\<rparr>"

definition nativeOf :: "string \<Rightarrow> node \<Rightarrow> nativeEvent" where
  "nativeOf ty t =
     \<lparr>ne_type = ty, ne_target = t, relatedTarget = None,
      metaKey = False, altKey = False, ctrlKey = False, key = []\<rparr>"

definition eventOf :: "string \<Rightarrow> node \<Rightarrow> syntheticEvent" where
  "eventOf ty t = \<lparr>se_type = ty, se_target = t, se_nativeEvent = nativeOf ty t\<rparr>"

definition keyEvent :: "node \<Rightarrow> string \<Rightarrow> syntheticEvent" where
  "keyEvent t k = \<lparr>se_type = ''keydown'', se_target = t, se_nativeEvent = keydownOn t k\<rparr>"

definition blurTo :: "node \<Rightarrow> node option \<Rightarrow> syntheticEvent" where
  "blurTo t r =
     \<lparr>se_type = ''focusout'', se_target = t,
      se_nativeEvent = (nativeOf ''focusout'' t)\<lparr>relatedTarget := r\<rparr>\<rparr>"

definition pcPlatform :: platform where
  "pcPlatform = \<lparr>isMac = False, hasPointerEvents = True\<rparr>"

definition allFocusOptions :: useFocusOptions where
  "allFocusOptions =
     \<lparr>disabled = None, onBlur = True, onFocus = True, onFocusChange = True,
      onFocusVisibleChange = True\<rparr>"

definition allWithinOptions :: useFocusWithinOptions where
  "allWithinOptions =
     \<lparr>disabledWithin = None, onAfterBlurWithin = True, onBeforeBlurWithin = True,
      onBlurWithin = True, onFocusWithin = True, onFocusWithinChange = True,
      onFocusWithinVisibleChange = True\<rparr>"

text \<open>A DOM subtree holding the button and its child, and a scope instance holding
  the same two nodes.\<close>

definition subtreeTarget :: focusWithinTarget where
  "subtreeTarget =
     \<lparr>containsNode = None, contains = (\<lambda>n. node_id n = 2 \<or> node_id n = 3)\<rparr>"

definition scopeTarget :: focusWithinTarget where
  "scopeTarget =
     \<lparr>containsNode = Some (\<lambda>n. node_id n = 2 \<or> node_id n = 3), contains = (\<lambda>n. False)\<rparr>"

text \<open>Hook states reached from the initial one, used in the examples below: the button
  receives focus while the global guess still has its initial value \<open>True\<close>; the pointer
  then moves over an element outside the tracked subtree.\<close>

definition trackedGlobal :: globalState where
  "trackedGlobal = useFocusLifecycles initialGlobalState"

definition afterPointerMove :: globalState where
  "afterPointerMove = windowEvent pcPlatform (nativeOf ''pointermove'' outsideElement) trackedGlobal"

definition keyboardFocused :: hook where
  "keyboardFocused =
     useFocus_dispatch pcPlatform allFocusOptions (Some buttonElement) trackedGlobal
       (eventOf ''focusin'' buttonElement) initialHook"

definition keyboardFocusedWithin :: withinHook where
  "keyboardFocusedWithin =
     useFocusWithin_dispatch pcPlatform allWithinOptions (Some subtreeTarget) trackedGlobal
       (eventOf ''focusin'' buttonElement) initialWithinHook"

text \<open>A focused hook whose focus is not visible (focus by pointer).\<close>

definition pointerFocused :: hook where
  "pointerFocused = \<lparr>stateRef = \<lparr>isFocused = True, isFocusVisible = False\<rparr>, callLog = []\<rparr>"

definition pointerFocusedWithin :: withinHook where
  "pointerFocusedWithin =
     \<lparr>stateRef = \<lparr>isFocused = True, isFocusVisible = False\<rparr>, callLog = [],
      afterBlurHandle = Map.empty\<rparr>"

text \<open>A hook tracking the \<^verbatim>\<open>input\<close> element, focused after the pointer move, so
  that its focus is not visible.\<close>

definition pointerFocusedInput :: hook where
  "pointerFocusedInput =
     useFocus_dispatch pcPlatform allFocusOptions (Some inputElement) afterPointerMove
       (eventOf ''focusin'' inputElement) initialHook"

section \<open>Theorems\<close>

text \<open>
  C1. The claim: isTextInput(event) is true exactly when the target is an INPUT, a
  TEXTAREA or content-editable and the key is neither Tab nor Escape; in particular
  Escape on an INPUT gives false. The source compares the key with the misspelt literal
  \<^verbatim>\<open>'Esacpe'\<close> (line 105), so the Escape exclusion never applies: on an INPUT element
  the key Escape is classified as text input, while Tab is not.
\<close>

theorem isTextInput_Escape_on_input:
  "isTextInput (keydownOn inputElement ''Escape'') = True
   \<and> isTextInput (keydownOn inputElement ''Tab'') = False"
  by (simp add: isTextInput_def keydownOn_def inputElement_def)


subsection \<open>The per-event listeners\<close>

lemmas hook_ops = Let_def set_isFocused_def set_isFocusVisible_def invoke_def

lemmas example_defs =
  pcPlatform_def allFocusOptions_def allWithinOptions_def buttonElement_def childElement_def
  outsideElement_def htmlElement_def inputElement_def nativeOf_def eventOf_def keyEvent_def
  keydownOn_def blurTo_def subtreeTarget_def scopeTarget_def initialHook_def
  initialWithinHook_def initialTrackerState_def initialGlobalState_def

lemma trackedGlobal_eq:
  "trackedGlobal = \<lparr>isGlobalFocusVisible = True, hasTrackedGlobalFocusVisible = True\<rparr>"
  by (simp add: trackedGlobal_def useFocusLifecycles_def initialGlobalState_def)

lemma afterPointerMove_eq:
  "afterPointerMove = \<lparr>isGlobalFocusVisible = False, hasTrackedGlobalFocusVisible = True\<rparr>"
  by (simp add: afterPointerMove_def trackedGlobal_eq windowEvent_def globalFocusVisibleEvents_def
      handleGlobalFocusVisibleEvent_def example_defs)

lemma keyboardFocused_eq:
  "keyboardFocused =
     \<lparr>stateRef = \<lparr>isFocused = True, isFocusVisible = True\<rparr>,
      callLog = [OnFocus (eventOf ''focusin'' buttonElement), OnFocusChange True,
                 OnFocusVisibleChange True]\<rparr>"
  by (simp add: keyboardFocused_def trackedGlobal_eq useFocus_dispatch_def
      useFocus_focusListener_def hook_ops example_defs)

lemma keyboardFocusedWithin_eq:
  "keyboardFocusedWithin =
     \<lparr>stateRef = \<lparr>isFocused = True, isFocusVisible = True\<rparr>,
      callLog = [OnFocusWithinChange True, OnFocusWithinVisibleChange True,
                 OnFocusWithin (eventOf ''focusin'' buttonElement)],
      afterBlurHandle = Map.empty\<rparr>"
  by (simp add: keyboardFocusedWithin_def trackedGlobal_eq useFocusWithin_dispatch_def
      useFocusWithin_focusListener_def truthy_def hook_ops example_defs)

text \<open>
  C4. The global handler, on a keydown, sets the guess to true exactly when no blocking
  modifier is held (no meta key, no control key, and no alt key unless the platform is
  Mac-style) and otherwise leaves the state as it is, so a keydown with the meta key never
  sets the guess; on any other event it sets the guess to false, except that an event whose
  target has nodeName HTML leaves the state unchanged.
\<close>

theorem handleGlobalFocusVisibleEvent_cases:
  "handleGlobalFocusVisibleEvent p e g =
     (if ne_type e = ''keydown'' then
        (if \<not> metaKey e \<and> \<not> ctrlKey e \<and> (isMac p \<or> \<not> altKey e)
         then g\<lparr>isGlobalFocusVisible := True\<rparr> else g)
      else if nodeName (ne_target e) = ''HTML'' then g
      else g\<lparr>isGlobalFocusVisible := False\<rparr>)"
  by (auto simp: handleGlobalFocusVisibleEvent_def isValidKey_def Let_def)

theorem handleGlobalFocusVisibleEvent_cases_witness:
  "handleGlobalFocusVisibleEvent pcPlatform
      ((keydownOn buttonElement ''a'')\<lparr>metaKey := True\<rparr>) afterPointerMove = afterPointerMove
   \<and> handleGlobalFocusVisibleEvent pcPlatform (keydownOn buttonElement ''Tab'') afterPointerMove
       = trackedGlobal
   \<and> handleGlobalFocusVisibleEvent pcPlatform (nativeOf ''mousedown'' htmlElement) trackedGlobal
       = trackedGlobal
   \<and> handleGlobalFocusVisibleEvent pcPlatform (nativeOf ''mousedown'' buttonElement) trackedGlobal
       = afterPointerMove"
  using handleGlobalFocusVisibleEvent_cases
      [of pcPlatform "(keydownOn buttonElement ''a'')\<lparr>metaKey := True\<rparr>" afterPointerMove]
    handleGlobalFocusVisibleEvent_cases
      [of pcPlatform "keydownOn buttonElement ''Tab''" afterPointerMove]
    handleGlobalFocusVisibleEvent_cases
      [of pcPlatform "nativeOf ''mousedown'' htmlElement" trackedGlobal]
    handleGlobalFocusVisibleEvent_cases
      [of pcPlatform "nativeOf ''mousedown'' buttonElement" trackedGlobal]
  by (simp add: trackedGlobal_eq afterPointerMove_eq example_defs)

text \<open>
  C3. The focus-in listener of useFocus: when the hook is not disabled, the state is
  blurred and the event's target is the tracked element, the state becomes focused, the
  stored visibility is the global guess read at that moment, and the supplied callbacks run
  in the order onFocus(event), onFocusChange(true), onFocusVisibleChange(true), the last
  only when the guess is true. In every other case neither the state nor the log changes.
\<close>

theorem useFocus_focusListener_transition:
  "useFocus_focusListener opts focusTarget g event h =
     (if disabled opts \<noteq> Some True \<and> \<not> isFocused (stateRef h)
         \<and> node_id (se_target event) = node_id focusTarget
      then h\<lparr>stateRef := \<lparr>isFocused = True, isFocusVisible = isGlobalFocusVisible g\<rparr>,
             callLog := callLog h
               @ (if onFocus opts then [OnFocus event] else [])
               @ (if onFocusChange opts then [OnFocusChange True] else [])
               @ (if isGlobalFocusVisible g \<and> onFocusVisibleChange opts
                  then [OnFocusVisibleChange True] else [])\<rparr>
      else h)"
  by (simp add: useFocus_focusListener_def hook_ops)

theorem useFocus_focusListener_transition_witness:
  "useFocus_focusListener allFocusOptions buttonElement trackedGlobal
      (eventOf ''focusin'' buttonElement) initialHook
     = \<lparr>stateRef = \<lparr>isFocused = True, isFocusVisible = True\<rparr>,
        callLog = [OnFocus (eventOf ''focusin'' buttonElement), OnFocusChange True,
                   OnFocusVisibleChange True]\<rparr>
   \<and> useFocus_focusListener allFocusOptions buttonElement afterPointerMove
      (eventOf ''focusin'' buttonElement) initialHook
     = \<lparr>stateRef = \<lparr>isFocused = True, isFocusVisible = False\<rparr>,
        callLog = [OnFocus (eventOf ''focusin'' buttonElement), OnFocusChange True]\<rparr>
   \<and> useFocus_focusListener allFocusOptions buttonElement trackedGlobal
      (eventOf ''focusin'' childElement) initialHook = initialHook
   \<and> useFocus_focusListener allFocusOptions buttonElement trackedGlobal
      (eventOf ''focusin'' buttonElement) pointerFocused = pointerFocused
   \<and> useFocus_focusListener (allFocusOptions\<lparr>disabled := Some True\<rparr>) buttonElement trackedGlobal
      (eventOf ''focusin'' buttonElement) initialHook = initialHook"
  using useFocus_focusListener_transition
      [of allFocusOptions buttonElement trackedGlobal "eventOf ''focusin'' buttonElement" initialHook]
    useFocus_focusListener_transition
      [of allFocusOptions buttonElement afterPointerMove "eventOf ''focusin'' buttonElement"
        initialHook]
    useFocus_focusListener_transition
      [of allFocusOptions buttonElement trackedGlobal "eventOf ''focusin'' childElement" initialHook]
    useFocus_focusListener_transition
      [of allFocusOptions buttonElement trackedGlobal "eventOf ''focusin'' buttonElement"
        pointerFocused]
    useFocus_focusListener_transition
      [of "allFocusOptions\<lparr>disabled := Some True\<rparr>" buttonElement trackedGlobal
        "eventOf ''focusin'' buttonElement" initialHook]
  by (simp add: trackedGlobal_eq afterPointerMove_eq pointerFocused_def example_defs)

text \<open>
  C5. The focus-out listener of useFocusWithin, for a hook that is not disabled and is
  focused. The related target is within the subtree when it is not null and the target's
  containsNode (if the target has that method) or else its contains says so. If it is
  within, neither the state nor the log changes. Otherwise the state becomes blurred, with
  the stored visibility left as it was, and the supplied callbacks run in the order
  onFocusWithinChange(false), onFocusWithinVisibleChange(false) only when the stored
  visibility was true, onBlurWithin(event).
\<close>

theorem useFocusWithin_blurListener_transition:
  assumes "\<not> truthy (disabledWithin opts)" and "isFocused (stateRef h)"
  shows "useFocusWithin_blurListener opts t event h =
     (if (case relatedTarget (se_nativeEvent event) of
            None \<Rightarrow> False
          | Some r \<Rightarrow> (case containsNode t of Some f \<Rightarrow> f r | None \<Rightarrow> contains t r))
      then h
      else h\<lparr>stateRef := \<lparr>isFocused = False, isFocusVisible = isFocusVisible (stateRef h)\<rparr>,
             callLog := callLog h
               @ (if onFocusWithinChange opts then [OnFocusWithinChange False] else [])
               @ (if isFocusVisible (stateRef h) \<and> onFocusWithinVisibleChange opts
                  then [OnFocusWithinVisibleChange False] else [])
               @ (if onBlurWithin opts then [OnBlurWithin event] else [])\<rparr>)"
  using assms
  by (simp add: useFocusWithin_blurListener_def isRelatedTargetWithin_def hook_ops)

theorem useFocusWithin_blurListener_transition_witness:
  "useFocusWithin_blurListener allWithinOptions subtreeTarget
      (blurTo buttonElement (Some childElement)) pointerFocusedWithin = pointerFocusedWithin
   \<and> useFocusWithin_blurListener allWithinOptions scopeTarget
      (blurTo buttonElement (Some childElement)) pointerFocusedWithin = pointerFocusedWithin
   \<and> useFocusWithin_blurListener allWithinOptions subtreeTarget
      (blurTo buttonElement (Some outsideElement)) pointerFocusedWithin
     = \<lparr>stateRef = \<lparr>isFocused = False, isFocusVisible = False\<rparr>,
        callLog = [OnFocusWithinChange False,
                   OnBlurWithin (blurTo buttonElement (Some outsideElement))],
        afterBlurHandle = Map.empty\<rparr>
   \<and> useFocusWithin_blurListener allWithinOptions scopeTarget
      (blurTo buttonElement None) keyboardFocusedWithin
     = \<lparr>stateRef = \<lparr>isFocused = False, isFocusVisible = True\<rparr>,
        callLog = [OnFocusWithinChange True, OnFocusWithinVisibleChange True,
                   OnFocusWithin (eventOf ''focusin'' buttonElement),
                   OnFocusWithinChange False, OnFocusWithinVisibleChange False,
                   OnBlurWithin (blurTo buttonElement None)],
        afterBlurHandle = Map.empty\<rparr>"
  using useFocusWithin_blurListener_transition
      [of allWithinOptions pointerFocusedWithin subtreeTarget
        "blurTo buttonElement (Some childElement)"]
    useFocusWithin_blurListener_transition
      [of allWithinOptions pointerFocusedWithin scopeTarget
        "blurTo buttonElement (Some childElement)"]
    useFocusWithin_blurListener_transition
      [of allWithinOptions pointerFocusedWithin subtreeTarget
        "blurTo buttonElement (Some outsideElement)"]
    useFocusWithin_blurListener_transition
      [of allWithinOptions keyboardFocusedWithin scopeTarget "blurTo buttonElement None"]
  by (simp add: keyboardFocusedWithin_eq pointerFocusedWithin_def truthy_def example_defs)

text \<open>
  C7. The device-input listeners promote the stored visibility on a valid keydown that is
  not text input. By the spec's section 4.2 an Escape key is not text input, also on an
  INPUT element, so a valid Escape keydown on a focused INPUT whose stored visibility is
  false has to invoke onFocusVisibleChange(true) once. The code does not: with the misspelt
  literal of line 105, \<open>isTextInput\<close> holds for that event, and the listener leaves
  the state and the log as they are, while the same keydown with Tab promotes. The state is
  reached by focusing the INPUT after a pointer move.
\<close>

theorem escape_keydown_on_focused_input_not_promoted:
  "stateRef pointerFocusedInput = \<lparr>isFocused = True, isFocusVisible = False\<rparr>
   \<and> isValidKey pcPlatform (keydownOn inputElement ''Escape'')
   \<and> isTextInput (keydownOn inputElement ''Escape'')
   \<and> useFocus_dispatch pcPlatform allFocusOptions (Some inputElement)
        (windowEvent pcPlatform (keydownOn inputElement ''Escape'') afterPointerMove)
        (keyEvent inputElement ''Escape'') pointerFocusedInput
     = pointerFocusedInput
   \<and> useFocus_dispatch pcPlatform allFocusOptions (Some inputElement)
        (windowEvent pcPlatform (keydownOn inputElement ''Tab'') afterPointerMove)
        (keyEvent inputElement ''Tab'') pointerFocusedInput
     = pointerFocusedInput\<lparr>stateRef := \<lparr>isFocused = True, isFocusVisible = True\<rparr>,
         callLog := callLog pointerFocusedInput @ [OnFocusVisibleChange True]\<rparr>"
  by (simp add: pointerFocusedInput_def afterPointerMove_eq useFocus_dispatch_def
      useFocus_focusListener_def useFocusVisibleInputHandles_def
      useFocus_focusVisibleListener_def handleFocusVisibleTargetEvents_def
      useFocus_focusVisibleCallback_def isValidKey_def isTextInput_def hook_ops example_defs)

text \<open>
  C8. A focus-in or focus-out event delivered to a hook (useFocus or useFocusWithin) whose
  disabled flag is true is ignored: the hook, that is its state and its log of callback
  invocations, is unchanged. This holds for the delivery as a whole and for each of the
  four listeners.
\<close>

theorem disabled_ignores_focus_and_blur:
  assumes "disabled opts = Some True" and "disabledWithin wopts = Some True"
    and "se_type event = ''focusin'' \<or> se_type event = ''focusout''"
  shows "useFocus_dispatch p opts r g event h = h
    \<and> useFocusWithin_dispatch p wopts wr g event w = w
    \<and> useFocus_focusListener opts t g event h = h
    \<and> useFocus_blurListener opts g event h = h
    \<and> useFocusWithin_focusListener wopts g event w = w
    \<and> useFocusWithin_blurListener wopts wt event w = w"
  using assms
  by (auto simp: useFocus_dispatch_def useFocusWithin_dispatch_def useFocus_focusListener_def
      useFocus_blurListener_def useFocusWithin_focusListener_def useFocusWithin_blurListener_def
      truthy_def split: option.splits)

theorem disabled_ignores_focus_and_blur_witness:
  "useFocus_dispatch pcPlatform (allFocusOptions\<lparr>disabled := Some True\<rparr>) (Some buttonElement)
      trackedGlobal (eventOf ''focusin'' buttonElement) initialHook = initialHook
   \<and> useFocusWithin_dispatch pcPlatform (allWithinOptions\<lparr>disabledWithin := Some True\<rparr>)
      (Some subtreeTarget) trackedGlobal (eventOf ''focusin'' buttonElement) initialWithinHook
     = initialWithinHook
   \<and> useFocus_dispatch pcPlatform (allFocusOptions\<lparr>disabled := Some True\<rparr>) (Some buttonElement)
      afterPointerMove (blurTo buttonElement None) keyboardFocused = keyboardFocused
   \<and> useFocusWithin_dispatch pcPlatform (allWithinOptions\<lparr>disabledWithin := Some True\<rparr>)
      (Some subtreeTarget) afterPointerMove (blurTo buttonElement None) keyboardFocusedWithin
     = keyboardFocusedWithin"
  using disabled_ignores_focus_and_blur
      [of "allFocusOptions\<lparr>disabled := Some True\<rparr>"
        "allWithinOptions\<lparr>disabledWithin := Some True\<rparr>" "eventOf ''focusin'' buttonElement"
        pcPlatform "Some buttonElement" trackedGlobal initialHook "Some subtreeTarget"
        initialWithinHook buttonElement subtreeTarget]
    disabled_ignores_focus_and_blur
      [of "allFocusOptions\<lparr>disabled := Some True\<rparr>"
        "allWithinOptions\<lparr>disabledWithin := Some True\<rparr>" "blurTo buttonElement None"
        pcPlatform "Some buttonElement" afterPointerMove keyboardFocused "Some subtreeTarget"
        keyboardFocusedWithin buttonElement subtreeTarget]
  by (simp add: example_defs)

text \<open>
  C9. The disabled flag does not guard the device-input listeners. The button is focused
  while the hook is enabled, so that the stored visibility is true; the hook is then
  disabled. A mousedown on the target of useFocus, and a pointerdown on the target of
  useFocusWithin, still set the stored visibility to false and invoke onFocusVisibleChange
  (respectively onFocusWithinVisibleChange) with false.
\<close>

theorem disabled_does_not_guard_visibility:
  "stateRef keyboardFocused = \<lparr>isFocused = True, isFocusVisible = True\<rparr>
   \<and> useFocus_dispatch pcPlatform (allFocusOptions\<lparr>disabled := Some True\<rparr>) (Some buttonElement)
        trackedGlobal (eventOf ''mousedown'' buttonElement) keyboardFocused
     = keyboardFocused\<lparr>stateRef := \<lparr>isFocused = True, isFocusVisible = False\<rparr>,
         callLog := callLog keyboardFocused @ [OnFocusVisibleChange False]\<rparr>
   \<and> stateRef keyboardFocusedWithin = \<lparr>isFocused = True, isFocusVisible = True\<rparr>
   \<and> useFocusWithin_dispatch pcPlatform (allWithinOptions\<lparr>disabledWithin := Some True\<rparr>)
        (Some subtreeTarget)
        (windowEvent pcPlatform (nativeOf ''pointerdown'' buttonElement) trackedGlobal)
        (eventOf ''pointerdown'' buttonElement) keyboardFocusedWithin
     = keyboardFocusedWithin\<lparr>stateRef := \<lparr>isFocused = True, isFocusVisible = False\<rparr>,
         callLog := callLog keyboardFocusedWithin @ [OnFocusWithinVisibleChange False]\<rparr>"
  by (simp add: keyboardFocused_eq keyboardFocusedWithin_eq useFocus_dispatch_def
      useFocusWithin_dispatch_def useFocusVisibleInputHandles_def
      useFocus_focusVisibleListener_def useFocusWithin_focusVisibleListener_def
      handleFocusVisibleTargetEvents_def useFocus_focusVisibleCallback_def
      useFocusWithin_focusVisibleCallback_def hook_ops example_defs)

text \<open>
  C2, as the code has it. In useFocus at a focus edge and at a blur edge, and in
  useFocusWithin at a focus edge, the stored visibility after the listener is the global
  guess read when the listener runs. The focus-out listener of useFocusWithin does not read
  the global guess: it leaves the stored visibility as it was, and at a blur edge it decides
  on that stored value whether onFocusWithinVisibleChange(false) is invoked, between
  onFocusWithinChange(false) and onBlurWithin.
\<close>

theorem visibility_at_edges:
  "(isFocused (stateRef (useFocus_focusListener opts t g event h)) \<noteq> isFocused (stateRef h)
      \<longrightarrow> isFocusVisible (stateRef (useFocus_focusListener opts t g event h))
          = isGlobalFocusVisible g)
   \<and> (isFocused (stateRef (useFocus_blurListener opts g event h)) \<noteq> isFocused (stateRef h)
      \<longrightarrow> isFocusVisible (stateRef (useFocus_blurListener opts g event h))
          = isGlobalFocusVisible g)
   \<and> (isFocused (stateRef (useFocusWithin_focusListener wopts g event w)) \<noteq> isFocused (stateRef w)
      \<longrightarrow> isFocusVisible (stateRef (useFocusWithin_focusListener wopts g event w))
          = isGlobalFocusVisible g)
   \<and> isFocusVisible (stateRef (useFocusWithin_blurListener wopts wt event w))
       = isFocusVisible (stateRef w)
   \<and> (isFocused (stateRef (useFocusWithin_blurListener wopts wt event w)) \<noteq> isFocused (stateRef w)
      \<longrightarrow> callLog (useFocusWithin_blurListener wopts wt event w)
          = callLog w
            @ (if onFocusWithinChange wopts then [OnFocusWithinChange False] else [])
            @ (if isFocusVisible (stateRef w) \<and> onFocusWithinVisibleChange wopts
               then [OnFocusWithinVisibleChange False] else [])
            @ (if onBlurWithin wopts then [OnBlurWithin event] else []))"
  by (auto simp: useFocus_focusListener_def useFocus_blurListener_def
      useFocusWithin_focusListener_def useFocusWithin_blurListener_def hook_ops)

theorem visibility_at_edges_witness:
  "isFocusVisible (stateRef (useFocus_focusListener allFocusOptions buttonElement afterPointerMove
      (eventOf ''focusin'' buttonElement) initialHook)) = False
   \<and> isFocusVisible (stateRef (useFocus_blurListener allFocusOptions trackedGlobal
      (blurTo buttonElement None) pointerFocused)) = True
   \<and> isFocusVisible (stateRef (useFocusWithin_focusListener allWithinOptions trackedGlobal
      (eventOf ''focusin'' buttonElement) initialWithinHook)) = True
   \<and> isFocusVisible (stateRef (useFocusWithin_blurListener allWithinOptions subtreeTarget
      (blurTo buttonElement None) pointerFocusedWithin)) = False
   \<and> callLog (useFocusWithin_blurListener allWithinOptions subtreeTarget
      (blurTo buttonElement None) pointerFocusedWithin)
     = [OnFocusWithinChange False, OnBlurWithin (blurTo buttonElement None)]
   \<and> callLog (useFocusWithin_blurListener allWithinOptions subtreeTarget
      (blurTo buttonElement (Some outsideElement)) keyboardFocusedWithin)
     = callLog keyboardFocusedWithin
       @ [OnFocusWithinChange False, OnFocusWithinVisibleChange False,
          OnBlurWithin (blurTo buttonElement (Some outsideElement))]"
proof -
  note focus_edge = visibility_at_edges
    [where opts = allFocusOptions and t = buttonElement and g = afterPointerMove
       and event = "eventOf ''focusin'' buttonElement" and h = initialHook
       and wopts = allWithinOptions and w = initialWithinHook and wt = subtreeTarget]
  note blur_edge = visibility_at_edges
    [where opts = allFocusOptions and t = buttonElement and g = trackedGlobal
       and event = "blurTo buttonElement None" and h = pointerFocused
       and wopts = allWithinOptions and w = pointerFocusedWithin and wt = subtreeTarget]
  note within_focus_edge = visibility_at_edges
    [where opts = allFocusOptions and t = buttonElement and g = trackedGlobal
       and event = "eventOf ''focusin'' buttonElement" and h = initialHook
       and wopts = allWithinOptions and w = initialWithinHook and wt = subtreeTarget]
  note within_blur_edge = visibility_at_edges
    [where opts = allFocusOptions and t = buttonElement and g = afterPointerMove
       and event = "blurTo buttonElement (Some outsideElement)" and h = keyboardFocused
       and wopts = allWithinOptions and w = keyboardFocusedWithin and wt = subtreeTarget]
  have 1: "isFocusVisible (stateRef (useFocus_focusListener allFocusOptions buttonElement
      afterPointerMove (eventOf ''focusin'' buttonElement) initialHook)) = False"
    using focus_edge [THEN conjunct1]
    by (simp add: afterPointerMove_eq useFocus_focusListener_def hook_ops example_defs)
  have 2: "isFocusVisible (stateRef (useFocus_blurListener allFocusOptions trackedGlobal
      (blurTo buttonElement None) pointerFocused)) = True"
    using blur_edge [THEN conjunct2, THEN conjunct1]
    by (simp add: trackedGlobal_eq pointerFocused_def useFocus_blurListener_def hook_ops
        example_defs)
  have 3: "isFocusVisible (stateRef (useFocusWithin_focusListener allWithinOptions trackedGlobal
      (eventOf ''focusin'' buttonElement) initialWithinHook)) = True"
    using within_focus_edge [THEN conjunct2, THEN conjunct2, THEN conjunct1]
    by (simp add: trackedGlobal_eq useFocusWithin_focusListener_def truthy_def hook_ops
        example_defs)
  have 4: "isFocusVisible (stateRef (useFocusWithin_blurListener allWithinOptions subtreeTarget
      (blurTo buttonElement None) pointerFocusedWithin)) = False"
    using blur_edge [THEN conjunct2, THEN conjunct2, THEN conjunct2, THEN conjunct1]
    by (simp add: pointerFocusedWithin_def)
  have 5: "callLog (useFocusWithin_blurListener allWithinOptions subtreeTarget
      (blurTo buttonElement None) pointerFocusedWithin)
     = [OnFocusWithinChange False, OnBlurWithin (blurTo buttonElement None)]"
    using blur_edge [THEN conjunct2, THEN conjunct2, THEN conjunct2, THEN conjunct2]
    by (simp add: pointerFocusedWithin_def useFocusWithin_blurListener_def
        isRelatedTargetWithin_def truthy_def hook_ops example_defs)
  have 6: "callLog (useFocusWithin_blurListener allWithinOptions subtreeTarget
      (blurTo buttonElement (Some outsideElement)) keyboardFocusedWithin)
     = callLog keyboardFocusedWithin
       @ [OnFocusWithinChange False, OnFocusWithinVisibleChange False,
          OnBlurWithin (blurTo buttonElement (Some outsideElement))]"
    using within_blur_edge [THEN conjunct2, THEN conjunct2, THEN conjunct2, THEN conjunct2]
    by (simp add: keyboardFocusedWithin_eq useFocusWithin_blurListener_def
        isRelatedTargetWithin_def truthy_def hook_ops example_defs)
  from 1 2 3 4 5 6 show ?thesis by blast
qed

text \<open>
  C2, as the claim states it, fails for the blur transition of useFocusWithin. The button
  is focused while the global guess is true; a pointer move outside the subtree then makes
  the guess false; focus leaves the subtree. After this blur edge the stored visibility is
  still true, not the guess, and onFocusWithinVisibleChange(false) was decided on the
  stored value. The blur listener of useFocus, in the same situation, stores the guess.
\<close>

theorem useFocusWithin_blur_keeps_stored_visibility:
  "stateRef keyboardFocusedWithin = \<lparr>isFocused = True, isFocusVisible = True\<rparr>
   \<and> isGlobalFocusVisible afterPointerMove = False
   \<and> useFocusWithin_dispatch pcPlatform allWithinOptions (Some subtreeTarget) afterPointerMove
        (blurTo buttonElement (Some outsideElement)) keyboardFocusedWithin
     = keyboardFocusedWithin\<lparr>stateRef := \<lparr>isFocused = False, isFocusVisible = True\<rparr>,
         callLog := callLog keyboardFocusedWithin
           @ [OnFocusWithinChange False, OnFocusWithinVisibleChange False,
              OnBlurWithin (blurTo buttonElement (Some outsideElement))]\<rparr>
   \<and> stateRef (useFocus_dispatch pcPlatform allFocusOptions (Some buttonElement) afterPointerMove
        (blurTo buttonElement (Some outsideElement)) keyboardFocused)
     = \<lparr>isFocused = False, isFocusVisible = False\<rparr>"
  by (simp add: keyboardFocused_eq keyboardFocusedWithin_eq afterPointerMove_eq
      useFocus_dispatch_def useFocusWithin_dispatch_def useFocus_blurListener_def
      useFocusWithin_blurListener_def isRelatedTargetWithin_def truthy_def hook_ops example_defs)

subsection \<open>Sequences of events: the one-shot after-blur listener\<close>

lemmas within_listener_defs =
  useFocusWithin_dispatch_def useFocusWithin_focusListener_def useFocusWithin_blurListener_def
  useFocusWithin_beforeBlurListener_def useFocusWithin_afterBlurListener_def
  useFocusWithin_focusVisibleListener_def handleFocusVisibleTargetEvents_def
  useFocusWithin_focusVisibleCallback_def setListener_def

lemma dispatch_keeps_unarmed:
  assumes "\<not> onBeforeBlurWithin opts" and "afterBlurHandle h Document = None"
  shows "afterBlurHandle (useFocusWithin_dispatch p opts r g e h) Document = None"
  using assms by (auto simp: within_listener_defs hook_ops split: option.splits)

lemma dispatch_unarmed_no_afterBlur_call:
  assumes "\<not> onBeforeBlurWithin opts" and "afterBlurHandle h Document = None"
    and "OnAfterBlurWithin a \<notin> set (callLog h)"
  shows "OnAfterBlurWithin a \<notin> set (callLog (useFocusWithin_dispatch p opts r g e h))"
  using assms by (auto simp: within_listener_defs hook_ops split: option.splits)

lemma run_unarmed_no_afterBlur_call:
  assumes "\<not> onBeforeBlurWithin opts"
  shows "afterBlurHandle h Document = None \<Longrightarrow> OnAfterBlurWithin a \<notin> set (callLog h)
    \<Longrightarrow> OnAfterBlurWithin a \<notin> set (callLog (useFocusWithin_run p opts r ges h))"
proof (induction ges arbitrary: h)
  case Nil
  then show ?case by simp
next
  case (Cons ge ges)
  let ?h = "useFocusWithin_dispatch p opts r (fst ge) (snd ge) h"
  have "afterBlurHandle ?h Document = None"
    using assms Cons.prems(1) by (rule dispatch_keeps_unarmed)
  moreover have "OnAfterBlurWithin a \<notin> set (callLog ?h)"
    using assms Cons.prems by (rule dispatch_unarmed_no_afterBlur_call)
  ultimately show ?case using Cons.IH by simp
qed

lemma beforeBlur_step:
  assumes "\<not> truthy (disabledWithin opts)" and "onBeforeBlurWithin opts"
    and "se_type e = ''beforeblur''"
  shows "useFocusWithin_dispatch p opts (Some t) g e h
    = h\<lparr>callLog := callLog h @ [OnBeforeBlurWithin e],
        afterBlurHandle := (afterBlurHandle h)(Document \<mapsto> opts)\<rparr>"
  using assms
  by (simp add: useFocusWithin_dispatch_def useFocusWithin_beforeBlurListener_def
      setListener_def hook_ops)

lemma afterBlur_step:
  assumes "se_type e = ''afterblur''"
  shows "useFocusWithin_dispatch p opts r g e h
    = (case afterBlurHandle h Document of
         None \<Rightarrow> h
       | Some c \<Rightarrow>
           h\<lparr>callLog := callLog h @ (if onAfterBlurWithin c then [OnAfterBlurWithin e] else []),
             afterBlurHandle := (afterBlurHandle h)(Document := None)\<rparr>)"
  using assms
  by (simp add: useFocusWithin_dispatch_def useFocusWithin_afterBlurListener_def
      setListener_def hook_ops split: option.splits)

text \<open>The log of a run of before-blur and after-blur events, from a hook whose one-shot
  listener is registered (with the current options) exactly when \<open>armed\<close> holds.\<close>

lemma run_blurPairing:
  assumes "\<not> truthy (disabledWithin opts)" and "onBeforeBlurWithin opts"
  shows "\<forall>ge\<in>set ges. se_type (snd ge) = ''beforeblur'' \<or> se_type (snd ge) = ''afterblur''
    \<Longrightarrow> afterBlurHandle h Document = (if armed then Some opts else None)
    \<Longrightarrow> callLog (useFocusWithin_run p opts (Some t) ges h)
        = callLog h @ blurPairing_spec opts armed (map snd ges)"
proof (induction ges arbitrary: h armed)
  case Nil
  then show ?case by simp
next
  case (Cons ge ges)
  let ?e = "snd ge"
  let ?h = "useFocusWithin_dispatch p opts (Some t) (fst ge) ?e h"
  have rest: "\<forall>ge\<in>set ges. se_type (snd ge) = ''beforeblur'' \<or> se_type (snd ge) = ''afterblur''"
    using Cons.prems(1) by simp
  have ty: "se_type ?e = ''beforeblur'' \<or> se_type ?e = ''afterblur''"
    using Cons.prems(1) by simp
  show ?case
  proof (cases "se_type ?e = ''beforeblur''")
    case True
    have step: "?h = h\<lparr>callLog := callLog h @ [OnBeforeBlurWithin ?e],
        afterBlurHandle := (afterBlurHandle h)(Document \<mapsto> opts)\<rparr>"
      using assms True by (rule beforeBlur_step)
    have "afterBlurHandle ?h Document = (if True then Some opts else None)"
      by (simp add: step)
    from Cons.IH[OF rest this]
    show ?thesis using True assms(2) by (simp add: step)
  next
    case False
    with ty have ab: "se_type ?e = ''afterblur''" by simp
    have step: "?h = (case afterBlurHandle h Document of
         None \<Rightarrow> h
       | Some c \<Rightarrow>
           h\<lparr>callLog := callLog h @ (if onAfterBlurWithin c then [OnAfterBlurWithin ?e] else []),
             afterBlurHandle := (afterBlurHandle h)(Document := None)\<rparr>)"
      using ab by (rule afterBlur_step)
    have "afterBlurHandle ?h Document = (if False then Some opts else None)"
      using Cons.prems(2) by (simp add: step split: option.splits)
    from Cons.IH[OF rest this]
    show ?thesis using ab Cons.prems(2) by (simp add: step split: option.splits)
  qed
qed

text \<open>
  C10. A useFocusWithin hook whose options lack onBeforeBlurWithin never invokes
  onAfterBlurWithin, whatever events are delivered to it from its initial state and
  whatever its other options are: the one-shot listener is registered only in the branch
  taken when onBeforeBlurWithin is supplied, so the document never holds it.
\<close>

theorem afterBlur_needs_beforeBlur_callback:
  assumes "\<not> onBeforeBlurWithin opts"
  shows "OnAfterBlurWithin a \<notin> set (callLog (useFocusWithin_run p opts r ges initialWithinHook))"
  using assms by (rule run_unarmed_no_afterBlur_call) (simp_all add: initialWithinHook_def)

theorem afterBlur_needs_beforeBlur_callback_witness:
  "OnAfterBlurWithin (eventOf ''afterblur'' buttonElement)
     \<notin> set (callLog (useFocusWithin_run pcPlatform
          (allWithinOptions\<lparr>onBeforeBlurWithin := False\<rparr>) (Some subtreeTarget)
          [(trackedGlobal, eventOf ''focusin'' buttonElement),
           (trackedGlobal, eventOf ''beforeblur'' buttonElement),
           (trackedGlobal, eventOf ''afterblur'' buttonElement)] initialWithinHook))"
  using afterBlur_needs_beforeBlur_callback
      [of "allWithinOptions\<lparr>onBeforeBlurWithin := False\<rparr>" "eventOf ''afterblur'' buttonElement"
        pcPlatform "Some subtreeTarget"
        "[(trackedGlobal, eventOf ''focusin'' buttonElement),
          (trackedGlobal, eventOf ''beforeblur'' buttonElement),
          (trackedGlobal, eventOf ''afterblur'' buttonElement)]"]
  by (simp add: allWithinOptions_def)

text \<open>
  C6, as the code has it. For a useFocusWithin hook that is not disabled and whose options
  supply onBeforeBlurWithin, started with no after-blur listener registered: the callbacks
  invoked over any sequence of before-blur and after-blur events are those of the spec's
  pairing. Each before-blur invokes onBeforeBlurWithin and arms the one-shot listener; an
  after-blur invokes onAfterBlurWithin (if supplied) once when the listener is armed and
  disarms it; a second before-blur before the after-blur replaces the registration, so that
  after-blur still invokes onAfterBlurWithin once.
\<close>

theorem blurPairing_refines_spec:
  assumes "\<not> truthy (disabledWithin opts)" and "onBeforeBlurWithin opts"
    and "\<forall>ge\<in>set ges. se_type (snd ge) = ''beforeblur'' \<or> se_type (snd ge) = ''afterblur''"
    and "afterBlurHandle h Document = None"
  shows "callLog (useFocusWithin_run p opts (Some t) ges h)
        = callLog h @ blurPairing_spec opts False (map snd ges)"
  using run_blurPairing[OF assms(1,2,3), of h False p t] assms(4) by simp

theorem blurPairing_refines_spec_witness:
  "callLog (useFocusWithin_run pcPlatform allWithinOptions (Some subtreeTarget)
      [(trackedGlobal, eventOf ''beforeblur'' buttonElement),
       (trackedGlobal, eventOf ''beforeblur'' childElement),
       (trackedGlobal, eventOf ''afterblur'' buttonElement),
       (trackedGlobal, eventOf ''afterblur'' childElement)] initialWithinHook)
   = [OnBeforeBlurWithin (eventOf ''beforeblur'' buttonElement),
      OnBeforeBlurWithin (eventOf ''beforeblur'' childElement),
      OnAfterBlurWithin (eventOf ''afterblur'' buttonElement)]"
  using blurPairing_refines_spec
      [of allWithinOptions
        "[(trackedGlobal, eventOf ''beforeblur'' buttonElement),
          (trackedGlobal, eventOf ''beforeblur'' childElement),
          (trackedGlobal, eventOf ''afterblur'' buttonElement),
          (trackedGlobal, eventOf ''afterblur'' childElement)]"
        initialWithinHook pcPlatform subtreeTarget]
  by (simp add: allWithinOptions_def initialWithinHook_def truthy_def eventOf_def)

text \<open>
  C6, as the claim states it, fails for a hook that is not disabled and supplies
  onAfterBlurWithin but not onBeforeBlurWithin: a before-blur registers no listener on the
  document, and the after-blur that follows invokes nothing, where the spec's pairing has
  onAfterBlurWithin invoked once.
\<close>

theorem beforeBlur_without_callback_arms_nothing:
  "afterBlurHandle (useFocusWithin_run pcPlatform
        (allWithinOptions\<lparr>onBeforeBlurWithin := False\<rparr>) (Some subtreeTarget)
        [(trackedGlobal, eventOf ''beforeblur'' buttonElement)] initialWithinHook) Document
     = None
   \<and> callLog (useFocusWithin_run pcPlatform
        (allWithinOptions\<lparr>onBeforeBlurWithin := False\<rparr>) (Some subtreeTarget)
        [(trackedGlobal, eventOf ''beforeblur'' buttonElement),
         (trackedGlobal, eventOf ''afterblur'' buttonElement)] initialWithinHook)
     = []
   \<and> blurPairing_spec (allWithinOptions\<lparr>onBeforeBlurWithin := False\<rparr>) False
        [eventOf ''beforeblur'' buttonElement, eventOf ''afterblur'' buttonElement]
     = [OnAfterBlurWithin (eventOf ''afterblur'' buttonElement)]"
  by (simp add: useFocusWithin_dispatch_def useFocusWithin_beforeBlurListener_def
      allWithinOptions_def initialWithinHook_def truthy_def eventOf_def)

end
